theory Spec2Isabelle
  imports Main "HOL-Library.Word"
begin

section \<open>The listener of the web server (Server.hpp, Server.cpp)\<close>

text \<open>
  The class \<open>Server\<close> owns a listening TCP socket. Its member functions call into the
  operating system (\<open>socket\<close>, \<open>setsockopt\<close>, \<open>bind\<close>, \<open>listen\<close>, \<open>accept\<close>,
  \<open>send\<close>, \<open>close\<close>) and the C library (\<open>rand\<close>, \<open>srand\<close>, \<open>time\<close>, \<open>perror\<close>,
  \<open>std::print\<close>). The embedding threads two states through every member function: the
  object (\<open>server\<close>) and everything outside of it (\<open>world\<close>). The world answers each
  library call and keeps a trace of the calls made, so that what the program did to
  the outside can be read off afterwards.

  The C++ type \<open>int\<close> has 32 bits; its values are modelled by the \<open>int\<close>s of that
  range. The only arithmetic on it is \<open>m_port + (rand() % 10)\<close>, modelled by
  \<open>int_add\<close>, which wraps around in two's complement as the compiled code does when
  the sum leaves the range (the language itself leaves that case undefined), and
  \<open>attempts++\<close>, which never goes past 10. The conversion \<open>htons\<close> takes a
  \<open>uint16_t\<close>; its truncation of an \<open>int\<close> to 16 bits is kept.
\<close>

subsection \<open>Data\<close>

text \<open>\<open>struct sockaddr_in\<close>: address family, IPv4 address, port (16 bits).\<close>

record sockaddr_in =
  sin_family :: nat
  sin_addr :: "32 word"
  sin_port :: "16 word"

text \<open>The data members of \<open>class Server\<close> (Server.hpp, lines 79 to 84).\<close>

record server =
  m_serverSocket :: int
  m_port :: int
  m_actualPort :: int
  m_backlog :: int
  m_running :: bool
  m_serverAddress :: sockaddr_in

text \<open>What \<open>std::print\<close> writes to standard output, one constructor per format string.\<close>

datatype message =
    BoundTo int
  | ListeningBacklog int
  | RunningOn int
  | ClientConnected "32 word" nat
  | ClientDisconnected
  | ServerStopped

text \<open>The calls that leave the process, in the order they are made.\<close>

datatype event =
    Socket int
  | Setsockopt int
  | Bind int "16 word"
  | Listen int int
  | Accept int
  | Send int string
  | Close int
  | Perror string
  | Stdout message

text \<open>
  The world outside the object.
  \<^item> \<open>socket_ret\<close>, \<open>setsockopt_ret\<close>, \<open>listen_ret\<close>: what the system call returns
    (negative on failure);
  \<^item> \<open>occupied p\<close>: \<open>bind\<close> on port \<open>p\<close> fails;
  \<^item> \<open>time_now\<close>: what \<open>time(nullptr)\<close> returns;
  \<^item> \<open>rand_gen seed i\<close>: the value of the \<open>i\<close>-th call of \<open>rand()\<close> after
    \<open>srand(seed)\<close>; \<open>rand_seed\<close> and \<open>rand_count\<close> are the generator's state;
  \<^item> \<open>inbound fd\<close>: the bytes the peer of connection \<open>fd\<close> has sent;
  \<^item> \<open>open_fds\<close>: the descriptors that are open;
  \<^item> \<open>trace\<close>: the calls made so far.
\<close>

record world =
  socket_ret :: int
  setsockopt_ret :: int
  listen_ret :: int
  occupied :: "16 word \<Rightarrow> bool"
  time_now :: nat
  rand_gen :: "nat \<Rightarrow> nat \<Rightarrow> nat"
  rand_seed :: nat
  rand_count :: nat
  inbound :: "int \<Rightarrow> string"
  open_fds :: "int set"
  trace :: "event list"

text \<open>
  One round of the accept loop as the outside sees it: whether another thread called
  \<open>stop()\<close> while \<open>accept\<close> was blocked, what \<open>accept\<close> returned, and the peer's
  address.
\<close>

datatype accept_outcome =
  AcceptOutcome (stop_called: bool) (accept_ret: int) (peer: sockaddr_in)

text \<open>
  \<open>run()\<close> either returns or is still blocked in \<open>accept\<close> when the script of
  accept outcomes is used up.
\<close>

datatype outcome = Returns "server \<times> world" | Blocks "server \<times> world"

subsection \<open>Constants of the system headers\<close>

definition AF_INET :: nat where
  "AF_INET = 2"

definition INADDR_ANY :: "32 word" where
  "INADDR_ANY = 0"

text \<open>
  \<open>htons\<close> takes a \<open>uint16_t\<close>: an \<open>int\<close> argument is reduced modulo \<open>2 ^ 16\<close>. The
  byte order on the wire is not modelled: \<open>sin_port\<close> holds the port number the kernel
  reads. \<open>ntohs\<close> is its inverse on 16 bits.
\<close>

definition htons :: "int \<Rightarrow> 16 word" where
  "htons p = word_of_int p"

definition ntohs :: "16 word \<Rightarrow> nat" where
  "ntohs p = unat p"

text \<open>
  Addition on the 32-bit \<open>int\<close>: the exact sum reduced to 32 bits and read as a signed
  value, so \<open>int_add 2147483647 3 = -2147483646\<close>.
\<close>

definition int_add :: "int \<Rightarrow> int \<Rightarrow> int" where
  "int_add a b = sint (word_of_int (a + b) :: 32 word)"

text \<open>\<open>strlen\<close>: the number of bytes before the first NUL.\<close>

definition strlen :: "string \<Rightarrow> nat" where
  "strlen s = length (takeWhile (\<lambda>c. c \<noteq> CHR 0x00) s)"

subsection \<open>Library calls\<close>

definition emit :: "event \<Rightarrow> world \<Rightarrow> world" where
  "emit e w = w\<lparr>trace := trace w @ [e]\<rparr>"

definition perror :: "string \<Rightarrow> world \<Rightarrow> world" where
  "perror msg w = emit (Perror msg) w"

definition print :: "message \<Rightarrow> world \<Rightarrow> world" where
  "print m w = emit (Stdout m) w"

definition socket_call :: "world \<Rightarrow> int \<times> world" where
  "socket_call w =
     (socket_ret w,
      emit (Socket (socket_ret w))
        (if 0 \<le> socket_ret w then w\<lparr>open_fds := insert (socket_ret w) (open_fds w)\<rparr> else w))"

definition setsockopt_call :: "int \<Rightarrow> world \<Rightarrow> int \<times> world" where
  "setsockopt_call fd w = (setsockopt_ret w, emit (Setsockopt fd) w)"

definition bind_call :: "int \<Rightarrow> sockaddr_in \<Rightarrow> world \<Rightarrow> int \<times> world" where
  "bind_call fd addr w =
     (if occupied w (sin_port addr) then - 1 else 0, emit (Bind fd (sin_port addr)) w)"

definition listen_call :: "int \<Rightarrow> int \<Rightarrow> world \<Rightarrow> int \<times> world" where
  "listen_call fd backlog w = (listen_ret w, emit (Listen fd backlog) w)"

definition close_call :: "int \<Rightarrow> world \<Rightarrow> world" where
  "close_call fd w = emit (Close fd) (w\<lparr>open_fds := open_fds w - {fd}\<rparr>)"

definition send_call :: "int \<Rightarrow> string \<Rightarrow> nat \<Rightarrow> world \<Rightarrow> world" where
  "send_call fd buf len w = emit (Send fd (take len buf)) w"

definition accept_call :: "int \<Rightarrow> accept_outcome \<Rightarrow> world \<Rightarrow> world" where
  "accept_call fd e w =
     emit (Accept fd)
       (if 0 \<le> accept_ret e then w\<lparr>open_fds := insert (accept_ret e) (open_fds w)\<rparr> else w)"

definition time_call :: "world \<Rightarrow> nat" where
  "time_call w = time_now w"

definition srand_call :: "nat \<Rightarrow> world \<Rightarrow> world" where
  "srand_call seed w = w\<lparr>rand_seed := seed, rand_count := 0\<rparr>"

definition rand_call :: "world \<Rightarrow> nat \<times> world" where
  "rand_call w =
     (rand_gen w (rand_seed w) (rand_count w), w\<lparr>rand_count := Suc (rand_count w)\<rparr>)"

subsection \<open>The member functions\<close>

text \<open>The constructor (Server.cpp, lines 13 to 21).\<close>

definition Server :: "int \<Rightarrow> int \<Rightarrow> world \<Rightarrow> server \<times> world" where
  "Server port backlog w =
     (\<lparr>m_serverSocket = - 1, m_port = port, m_actualPort = port, m_backlog = backlog,
       m_running = False,
       m_serverAddress = \<lparr>sin_family = 0, sin_addr = 0, sin_port = 0\<rparr>\<rparr>,
      srand_call (time_call w) w)"

definition getPort :: "server \<Rightarrow> int" where
  "getPort s = m_actualPort s"

text \<open>\<open>createSocket\<close> (lines 46 to 61).\<close>

definition createSocket :: "server \<times> world \<Rightarrow> bool \<times> server \<times> world" where
  "createSocket sw =
     (case sw of (s, w) \<Rightarrow>
      case socket_call w of (fd, w1) \<Rightarrow>
        let s1 = s\<lparr>m_serverSocket := fd\<rparr> in
        if m_serverSocket s1 < 0 then (False, s1, perror ''socket creation failed'' w1)
        else
          case setsockopt_call (m_serverSocket s1) w1 of (r, w2) \<Rightarrow>
            if r < 0 then (False, s1, perror ''setsockopt failed'' w2)
            else (True, s1, w2))"

text \<open>
  The retry loop of \<open>bindSocket\<close> (lines 69 to 79); \<open>attempts\<close> is the local counter.
  Each round calls \<open>bind\<close> first, so the loop is entered with the address to try.
\<close>

function bind_loop :: "nat \<Rightarrow> server \<Rightarrow> world \<Rightarrow> bool \<times> server \<times> world" where
  "bind_loop attempts s w =
     (case bind_call (m_serverSocket s) (m_serverAddress s) w of (r, w1) \<Rightarrow>
        if r < 0 then
          if attempts \<ge> 10 then (False, s, perror ''bind failed after 10 attempts'' w1)
          else
            case rand_call w1 of (rv, w2) \<Rightarrow>
              let s1 = s\<lparr>m_actualPort := int_add (m_port s) (int (rv mod 10))\<rparr>;
                  s2 = s1\<lparr>m_serverAddress :=
                         (m_serverAddress s1)\<lparr>sin_port := htons (m_actualPort s1)\<rparr>\<rparr>
              in bind_loop (attempts + 1) s2 w2
        else (True, s, print (BoundTo (m_actualPort s)) w1))"
  by pat_completeness auto
termination
  by (relation "measure (\<lambda>(attempts, s, w). 11 - attempts)") auto

declare bind_loop.simps [simp del]

text \<open>\<open>bindSocket\<close> (lines 63 to 83).\<close>

definition bindSocket :: "server \<times> world \<Rightarrow> bool \<times> server \<times> world" where
  "bindSocket sw =
     (case sw of (s, w) \<Rightarrow>
        bind_loop 0
          (s\<lparr>m_serverAddress :=
               \<lparr>sin_family = AF_INET, sin_addr = INADDR_ANY, sin_port = htons (m_port s)\<rparr>\<rparr>)
          w)"

text \<open>\<open>listenSocket\<close> (lines 85 to 93).\<close>

definition listenSocket :: "server \<times> world \<Rightarrow> bool \<times> server \<times> world" where
  "listenSocket sw =
     (case sw of (s, w) \<Rightarrow>
      case listen_call (m_serverSocket s) (m_backlog s) w of (r, w1) \<Rightarrow>
        if r < 0 then (False, s, perror ''listen failed'' w1)
        else (True, s, print (ListeningBacklog (m_backlog s)) w1))"

text \<open>\<open>start\<close> (lines 27 to 44).\<close>

definition start :: "server \<times> world \<Rightarrow> bool \<times> server \<times> world" where
  "start sw =
     (case createSocket sw of (ok1, s1, w1) \<Rightarrow>
        if \<not> ok1 then (False, s1, w1)
        else
          case bindSocket (s1, w1) of (ok2, s2, w2) \<Rightarrow>
            if \<not> ok2 then (False, s2, close_call (m_serverSocket s2) w2)
            else
              case listenSocket (s2, w2) of (ok3, s3, w3) \<Rightarrow>
                if \<not> ok3 then (False, s3, close_call (m_serverSocket s3) w3)
                else (True, s3\<lparr>m_running := True\<rparr>, w3))"

text \<open>\<open>stop\<close> (lines 138 to 145); the destructor calls it and does nothing else.\<close>

definition stop :: "server \<times> world \<Rightarrow> server \<times> world" where
  "stop sw =
     (case sw of (s, w) \<Rightarrow>
        let s1 = s\<lparr>m_running := False\<rparr> in
        if m_serverSocket s1 \<ge> 0
        then (s1\<lparr>m_serverSocket := - 1\<rparr>, print ServerStopped (close_call (m_serverSocket s1) w))
        else (s1, w))"

text \<open>The fixed response of \<open>handleClient\<close> (lines 125 to 130).\<close>

definition response :: string where
  "response =
     ''HTTP/1.1 200 OK'' @ [CHR 0x0D, CHR 0x0A] @
     ''Content-Type: text/plain'' @ [CHR 0x0D, CHR 0x0A] @
     ''Content-Length: 13'' @ [CHR 0x0D, CHR 0x0A] @
     [CHR 0x0D, CHR 0x0A] @
     ''Hello, World!''"

text \<open>
  \<open>handleClient\<close> (lines 116 to 136). It reads nothing from the connection and
  touches no data member. The dotted form \<open>inet_ntop\<close> produces is not modelled: the
  message carries the address itself.
\<close>

definition handleClient :: "int \<Rightarrow> sockaddr_in \<Rightarrow> server \<times> world \<Rightarrow> server \<times> world" where
  "handleClient clientSocket clientAddr sw =
     (case sw of (s, w) \<Rightarrow>
        let clientPort = ntohs (sin_port clientAddr);
            w1 = print (ClientConnected (sin_addr clientAddr) clientPort) w;
            w2 = send_call clientSocket response (strlen response) w1;
            w3 = close_call clientSocket w2
        in (s, print ClientDisconnected w3))"

text \<open>
  The blocking call \<open>accept(m_serverSocket, ...)\<close> of one round (line 102). A
  \<open>stop()\<close> from another thread takes effect while the call is blocked, before the
  loop looks at the result.
\<close>

definition accepted :: "accept_outcome \<Rightarrow> server \<times> world \<Rightarrow> server \<times> world" where
  "accepted e sw =
     (let sw1 = (fst sw, accept_call (m_serverSocket (fst sw)) e (snd sw))
      in if stop_called e then stop sw1 else sw1)"

text \<open>The accept loop of \<open>run\<close> (lines 98 to 113), over the script of accept outcomes.\<close>

fun run_loop :: "accept_outcome list \<Rightarrow> server \<times> world \<Rightarrow> outcome" where
  "run_loop [] sw = (if m_running (fst sw) then Blocks sw else Returns sw)"
| "run_loop (e # es) sw =
     (if \<not> m_running (fst sw) then Returns sw
      else
        let sw1 = accepted e sw;
            clientSocket = accept_ret e
        in if clientSocket < 0
           then run_loop es
                  (if m_running (fst sw1) then (fst sw1, perror ''accept failed'' (snd sw1))
                   else sw1)
           else run_loop es (handleClient clientSocket (peer e) sw1))"

text \<open>\<open>run\<close> (lines 95 to 114).\<close>

definition run :: "accept_outcome list \<Rightarrow> server \<times> world \<Rightarrow> outcome" where
  "run es sw =
     (case sw of (s, w) \<Rightarrow> run_loop es (s, print (RunningOn (m_actualPort s)) w))"

section \<open>Notions for the statements\<close>

text \<open>
  \<open>draw w i\<close> is what the \<open>i\<close>-th call of \<open>rand()\<close> from now on returns, and
  \<open>candidate P w i\<close> the port the \<open>i\<close>-th retry of \<open>bindSocket\<close> computes from it for
  the requested port \<open>P\<close>; \<open>retry_ports\<close> lists the candidates of the ten retries.
\<close>

definition draw :: "world \<Rightarrow> nat \<Rightarrow> nat" where
  "draw w i = rand_gen w (rand_seed w) (rand_count w + i)"

definition candidate :: "int \<Rightarrow> world \<Rightarrow> nat \<Rightarrow> int" where
  "candidate P w i = int_add P (int (draw w i mod 10))"

definition retry_ports :: "int \<Rightarrow> world \<Rightarrow> int list" where
  "retry_ports P w = map (candidate P w) [0..<10]"

text \<open>The requested port \<open>P\<close> and each of \<open>P+1\<close> to \<open>P+9\<close> is occupied.\<close>

definition all_occupied :: "world \<Rightarrow> int \<Rightarrow> bool" where
  "all_occupied w P = list_all (\<lambda>k. occupied w (htons (P + int k))) [0..<10]"

text \<open>One of \<open>P+1\<close> to \<open>P+9\<close> is free.\<close>

definition some_free :: "world \<Rightarrow> int \<Rightarrow> bool" where
  "some_free w P = list_ex (\<lambda>k. \<not> occupied w (htons (P + int k))) [1..<10]"

text \<open>The first of the ten retry candidates that is free, if there is one.\<close>

definition first_free :: "world \<Rightarrow> int \<Rightarrow> int option" where
  "first_free w P = find (\<lambda>q. \<not> occupied w (htons q)) (retry_ports P w)"

text \<open>The calls made between two worlds, and the ports of the \<open>bind\<close> calls among them.\<close>

definition events_since :: "world \<Rightarrow> world \<Rightarrow> event list" where
  "events_since w w' = drop (length (trace w)) (trace w')"

fun bind_ports :: "event list \<Rightarrow> 16 word list" where
  "bind_ports [] = []"
| "bind_ports (Bind fd p # es) = p # bind_ports es"
| "bind_ports (e # es) = bind_ports es"

text \<open>
  A stretch of accept outcomes that all fail while nobody stops the listener, and what
  the loop is to leave in the trace for it: each \<open>accept\<close> call followed by its report.
\<close>

definition keeps_failing :: "accept_outcome list \<Rightarrow> bool" where
  "keeps_failing fs = list_all (\<lambda>e. accept_ret e < 0 \<and> \<not> stop_called e) fs"

definition failure_reports :: "int \<Rightarrow> accept_outcome list \<Rightarrow> event list" where
  "failure_reports fd fs = concat (map (\<lambda>e. [Accept fd, Perror ''accept failed'']) fs)"

text \<open>The state \<open>run\<close> ends in, returned or blocked.\<close>

fun final :: "outcome \<Rightarrow> server \<times> world" where
  "final (Returns sw) = sw"
| "final (Blocks sw) = sw"

subsection \<open>Intermediate states of \<open>start\<close>\<close>

text \<open>The object and the world after one failed \<open>bind\<close> and the retry's assignments.\<close>

definition retry :: "server \<Rightarrow> world \<Rightarrow> server" where
  "retry s w =
     s\<lparr>m_actualPort := candidate (m_port s) w 0,
       m_serverAddress := (m_serverAddress s)\<lparr>sin_port := htons (candidate (m_port s) w 0)\<rparr>\<rparr>"

definition after_bind :: "server \<Rightarrow> world \<Rightarrow> world" where
  "after_bind s w =
     snd (rand_call (emit (Bind (m_serverSocket s) (sin_port (m_serverAddress s))) w))"

text \<open>
  The world after \<open>createSocket\<close> succeeded, and the object as the retry loop of
  \<open>bindSocket\<close> first sees it.
\<close>

definition opened :: "world \<Rightarrow> world" where
  "opened w = snd (setsockopt_call (socket_ret w) (snd (socket_call w)))"

definition addressed :: "server \<Rightarrow> world \<Rightarrow> server" where
  "addressed s w =
     s\<lparr>m_serverSocket := socket_ret w,
       m_serverAddress :=
         \<lparr>sin_family = AF_INET, sin_addr = INADDR_ANY, sin_port = htons (m_port s)\<rparr>\<rparr>"

subsection \<open>Sample environments\<close>

text \<open>
  A process with descriptors 0, 1 and 2 open, where \<open>socket\<close> returns 3 and
  \<open>setsockopt\<close> and \<open>listen\<close> succeed; which ports are occupied and what \<open>rand()\<close>
  returns are parameters.
\<close>

definition every_port :: "16 word \<Rightarrow> bool" where
  "every_port p = True"

definition no_port :: "16 word \<Rightarrow> bool" where
  "no_port p = False"

definition all_but_8085 :: "16 word \<Rightarrow> bool" where
  "all_but_8085 p = (p \<noteq> 8085)"

definition step3_gen :: "nat \<Rightarrow> nat \<Rightarrow> nat" where
  "step3_gen seed i = seed + 3 * i"

definition even_gen :: "nat \<Rightarrow> nat \<Rightarrow> nat" where
  "even_gen seed i = 2 * (seed + i)"

definition no_data :: "int \<Rightarrow> string" where
  "no_data fd = []"

definition sample_world :: "(16 word \<Rightarrow> bool) \<Rightarrow> (nat \<Rightarrow> nat \<Rightarrow> nat) \<Rightarrow> world" where
  "sample_world occ gen =
     \<lparr>socket_ret = 3, setsockopt_ret = 0, listen_ret = 0, occupied = occ, time_now = 0,
      rand_gen = gen, rand_seed = 1, rand_count = 0, inbound = no_data,
      open_fds = {0, 1, 2}, trace = []\<rparr>"

text \<open>
  A listener for port 8080 whose \<open>start()\<close> has failed with every port occupied, and
  the same listener once the ports have been released.
\<close>

definition failed_once :: "server \<times> world" where
  "failed_once = snd (start (Server 8080 10 (sample_world every_port step3_gen)))"

definition ports_released :: "server \<times> world" where
  "ports_released = (fst failed_once, (snd failed_once)\<lparr>occupied := no_port\<rparr>)"

text \<open>The same process where \<open>setsockopt\<close> fails.\<close>

definition sockopt_fails_world :: world where
  "sockopt_fails_world = (sample_world no_port step3_gen)\<lparr>setsockopt_ret := - 1\<rparr>"

text \<open>
  A listener started on the free port 8080, and three accept outcomes: a failure, a
  failure while another thread stops the listener, and a client from 127.0.0.1.
\<close>

definition started :: "server \<times> world" where
  "started = snd (start (Server 8080 10 (sample_world no_port step3_gen)))"

definition no_addr :: sockaddr_in where
  "no_addr = \<lparr>sin_family = 0, sin_addr = 0, sin_port = 0\<rparr>"

definition accept_fails :: accept_outcome where
  "accept_fails = AcceptOutcome False (- 1) no_addr"

definition accept_stopped :: accept_outcome where
  "accept_stopped = AcceptOutcome True (- 1) no_addr"

definition accept_client :: accept_outcome where
  "accept_client =
     AcceptOutcome False 4 \<lparr>sin_family = 2, sin_addr = 0x7F000001, sin_port = 54321\<rparr>"

section \<open>The retry loop\<close>

lemma htons_int_add: "htons (int_add a b) = htons (a + b)"
proof -
  have "take_bit 16 (signed_take_bit 31 (a + b)) = take_bit 16 (a + b)"
    by (simp add: take_bit_signed_take_bit)
  then show ?thesis
    by (simp only: htons_def int_add_def word_of_int_eq_iff sint_sbintrunc') simp
qed

lemma int_add_in_range:
  assumes "- 2147483648 \<le> a + b" and "a + b \<le> 2147483647"
  shows "int_add a b = a + b"
proof -
  have "signed_take_bit 31 (a + b) = a + b"
    using assms by (intro signed_take_bit_int_eq_self) simp_all
  then show ?thesis
    by (simp only: int_add_def sint_sbintrunc') simp
qed

lemma int_add_wraps: "int_add 2147483647 3 = - 2147483646"
  by (simp add: int_add_def)

lemma htons_candidate: "htons (candidate P w i) = htons (P + int (draw w i mod 10))"
  by (simp add: candidate_def htons_int_add)

lemma bind_loop_free:
  "\<not> occupied w (sin_port (m_serverAddress s)) \<Longrightarrow>
   bind_loop a s w =
     (True, s, print (BoundTo (m_actualPort s))
                 (emit (Bind (m_serverSocket s) (sin_port (m_serverAddress s))) w))"
  by (subst bind_loop.simps) (simp add: bind_call_def)

lemma bind_loop_exhausted:
  "occupied w (sin_port (m_serverAddress s)) \<Longrightarrow> 10 \<le> a \<Longrightarrow>
   bind_loop a s w =
     (False, s, perror ''bind failed after 10 attempts''
                  (emit (Bind (m_serverSocket s) (sin_port (m_serverAddress s))) w))"
  by (subst bind_loop.simps) (simp add: bind_call_def)

lemma bind_loop_retry:
  "occupied w (sin_port (m_serverAddress s)) \<Longrightarrow> a < 10 \<Longrightarrow>
   bind_loop a s w = bind_loop (Suc a) (retry s w) (after_bind s w)"
  by (subst bind_loop.simps)
     (simp add: bind_call_def rand_call_def retry_def candidate_def draw_def emit_def Let_def
        after_bind_def)

lemma retry_simps:
  "m_port (retry s w) = m_port s"
  "m_serverSocket (retry s w) = m_serverSocket s"
  "m_backlog (retry s w) = m_backlog s"
  "m_running (retry s w) = m_running s"
  "m_actualPort (retry s w) = candidate (m_port s) w 0"
  "sin_port (m_serverAddress (retry s w)) = htons (candidate (m_port s) w 0)"
  by (simp_all add: retry_def)

lemma after_bind_simps:
  "occupied (after_bind s w) = occupied w"
  "open_fds (after_bind s w) = open_fds w"
  "listen_ret (after_bind s w) = listen_ret w"
  "inbound (after_bind s w) = inbound w"
  "trace (after_bind s w) = trace w @ [Bind (m_serverSocket s) (sin_port (m_serverAddress s))]"
  "candidate P (after_bind s w) i = candidate P w (Suc i)"
  by (simp_all add: after_bind_def rand_call_def emit_def candidate_def draw_def)

lemma map_upt_shift: "f 0 # map (\<lambda>i. f (Suc i)) [0..<n] = map f [0..<Suc n]"
  by (simp add: map_upt_Suc del: upt_Suc)

lemma bind_loop_all_fail:
  "a + n = 10 \<Longrightarrow> occupied w (sin_port (m_serverAddress s)) \<Longrightarrow>
   (\<forall>i<n. occupied w (htons (candidate (m_port s) w i))) \<Longrightarrow>
   \<not> fst (bind_loop a s w) \<and>
   m_serverSocket (fst (snd (bind_loop a s w))) = m_serverSocket s \<and>
   m_running (fst (snd (bind_loop a s w))) = m_running s \<and>
   m_actualPort (fst (snd (bind_loop a s w))) =
     (if n = 0 then m_actualPort s else candidate (m_port s) w (n - 1)) \<and>
   open_fds (snd (snd (bind_loop a s w))) = open_fds w \<and>
   trace (snd (snd (bind_loop a s w))) =
     trace w @
     map (Bind (m_serverSocket s))
       (sin_port (m_serverAddress s) # map (\<lambda>i. htons (candidate (m_port s) w i)) [0..<n]) @
     [Perror ''bind failed after 10 attempts'']"
proof (induction n arbitrary: a s w)
  case 0
  then show ?case
    by (simp add: bind_loop_exhausted perror_def emit_def)
next
  case (Suc n)
  have step: "bind_loop a s w = bind_loop (Suc a) (retry s w) (after_bind s w)"
    using Suc.prems by (intro bind_loop_retry) simp_all
  have next_occ: "occupied (after_bind s w) (sin_port (m_serverAddress (retry s w)))"
    using Suc.prems(3) by (simp add: retry_simps after_bind_simps)
  have rest_occ: "\<forall>i<n. occupied (after_bind s w)
      (htons (candidate (m_port (retry s w)) (after_bind s w) i))"
    using Suc.prems(3) by (simp add: retry_simps after_bind_simps)
  have count: "Suc a + n = 10"
    using Suc.prems(1) by simp
  note IH = Suc.IH [OF count next_occ rest_occ]
  show ?case
    unfolding step using IH
    by (simp add: retry_simps after_bind_simps map_upt_shift [symmetric] del: upt_Suc)
qed

lemma bind_loop_first_free:
  "a + n = 10 \<Longrightarrow> j < n \<Longrightarrow> occupied w (sin_port (m_serverAddress s)) \<Longrightarrow>
   (\<forall>i<j. occupied w (htons (candidate (m_port s) w i))) \<Longrightarrow>
   \<not> occupied w (htons (candidate (m_port s) w j)) \<Longrightarrow>
   fst (bind_loop a s w) \<and>
   m_actualPort (fst (snd (bind_loop a s w))) = candidate (m_port s) w j \<and>
   m_serverSocket (fst (snd (bind_loop a s w))) = m_serverSocket s \<and>
   m_backlog (fst (snd (bind_loop a s w))) = m_backlog s \<and>
   listen_ret (snd (snd (bind_loop a s w))) = listen_ret w \<and>
   open_fds (snd (snd (bind_loop a s w))) = open_fds w \<and>
   trace (snd (snd (bind_loop a s w))) =
     trace w @
     map (Bind (m_serverSocket s))
       (sin_port (m_serverAddress s) # map (\<lambda>i. htons (candidate (m_port s) w i)) [0..<Suc j]) @
     [Stdout (BoundTo (candidate (m_port s) w j))]"
proof (induction j arbitrary: a n s w)
  case 0
  have step: "bind_loop a s w = bind_loop (Suc a) (retry s w) (after_bind s w)"
    using "0.prems" by (intro bind_loop_retry) simp_all
  have free: "\<not> occupied (after_bind s w) (sin_port (m_serverAddress (retry s w)))"
    using "0.prems" by (simp add: retry_simps after_bind_simps)
  show ?case
    unfolding step bind_loop_free [OF free]
    by (simp add: retry_simps after_bind_simps print_def emit_def)
next
  case (Suc j)
  obtain m where n: "n = Suc m" and jm: "j < m"
    using Suc.prems(2) by (cases n) simp_all
  have step: "bind_loop a s w = bind_loop (Suc a) (retry s w) (after_bind s w)"
    using Suc.prems n by (intro bind_loop_retry) simp_all
  have next_occ: "occupied (after_bind s w) (sin_port (m_serverAddress (retry s w)))"
    using Suc.prems(4) by (simp add: retry_simps after_bind_simps)
  have rest_occ: "\<forall>i<j. occupied (after_bind s w)
      (htons (candidate (m_port (retry s w)) (after_bind s w) i))"
    using Suc.prems(4) by (simp add: retry_simps after_bind_simps)
  have free: "\<not> occupied (after_bind s w)
      (htons (candidate (m_port (retry s w)) (after_bind s w) j))"
    using Suc.prems(5) by (simp add: retry_simps after_bind_simps)
  have count: "Suc a + m = 10"
    using Suc.prems(1) n by simp
  note IH = Suc.IH [OF count jm next_occ rest_occ free]
  show ?case
    unfolding step using IH
    by (simp add: retry_simps after_bind_simps map_upt_shift [symmetric] del: upt_Suc)
qed

lemma bind_loop_frame:
  "m_port (fst (snd (bind_loop a s w))) = m_port s \<and>
   m_backlog (fst (snd (bind_loop a s w))) = m_backlog s"
proof (induction "10 - a" arbitrary: a s w)
  case 0
  then have a: "10 \<le> a" by simp
  show ?case
  proof (cases "occupied w (sin_port (m_serverAddress s))")
    case True
    then show ?thesis by (simp add: bind_loop_exhausted [OF True a])
  next
    case False
    then show ?thesis by (simp add: bind_loop_free)
  qed
next
  case (Suc n)
  then have a: "a < 10" and n: "n = 10 - Suc a" by simp_all
  show ?case
  proof (cases "occupied w (sin_port (m_serverAddress s))")
    case True
    show ?thesis
      unfolding bind_loop_retry [OF True a]
      using Suc.hyps(1) [OF n, of "retry s w" "after_bind s w"]
      by (simp add: retry_simps)
  next
    case False
    then show ?thesis by (simp add: bind_loop_free)
  qed
qed

section \<open>Starting\<close>

lemma opened_simps:
  "0 \<le> socket_ret w \<Longrightarrow> open_fds (opened w) = insert (socket_ret w) (open_fds w)"
  "occupied (opened w) = occupied w"
  "listen_ret (opened w) = listen_ret w"
  "trace (opened w) = trace w @ [Socket (socket_ret w), Setsockopt (socket_ret w)]"
  "candidate P (opened w) i = candidate P w i"
  by (simp_all add: opened_def setsockopt_call_def socket_call_def emit_def candidate_def draw_def)

lemma addressed_simps:
  "m_serverSocket (addressed s w) = socket_ret w"
  "m_port (addressed s w) = m_port s"
  "m_actualPort (addressed s w) = m_actualPort s"
  "m_backlog (addressed s w) = m_backlog s"
  "m_running (addressed s w) = m_running s"
  "sin_port (m_serverAddress (addressed s w)) = htons (m_port s)"
  by (simp_all add: addressed_def)

lemma start_created:
  "0 \<le> socket_ret w \<Longrightarrow> 0 \<le> setsockopt_ret w \<Longrightarrow>
   start (s, w) =
     (case bind_loop 0 (addressed s w) (opened w) of (ok2, s2, w2) \<Rightarrow>
        if \<not> ok2 then (False, s2, close_call (m_serverSocket s2) w2)
        else
          case listenSocket (s2, w2) of (ok3, s3, w3) \<Rightarrow>
            if \<not> ok3 then (False, s3, close_call (m_serverSocket s3) w3)
            else (True, s3\<lparr>m_running := True\<rparr>, w3))"
  by (simp add: start_def createSocket_def bindSocket_def opened_def addressed_def
      socket_call_def setsockopt_call_def emit_def Let_def)

lemma events_sinceI: "trace w' = trace w @ es \<Longrightarrow> events_since w w' = es"
  by (simp add: events_since_def)

lemma bind_ports_append: "bind_ports (xs @ ys) = bind_ports xs @ bind_ports ys"
  by (induction xs rule: bind_ports.induct) simp_all

lemma bind_ports_map: "bind_ports (map (Bind fd) ps) = ps"
  by (induction ps) simp_all

lemma bind_ports_map_comp: "bind_ports (map (Bind fd \<circ> f) xs) = map f xs"
  by (induction xs) simp_all

lemma start_binds_exhausted:
  assumes sock: "0 \<le> socket_ret w" and opt: "0 \<le> setsockopt_ret w"
    and req: "occupied w (htons (m_port s))"
    and cands: "\<forall>i<10. occupied w (htons (candidate (m_port s) w i))"
  shows "\<not> fst (start (s, w))"
    and "m_serverSocket (fst (snd (start (s, w)))) = socket_ret w"
    and "m_running (fst (snd (start (s, w)))) = m_running s"
    and "open_fds (snd (snd (start (s, w)))) = open_fds w - {socket_ret w}"
    and "events_since w (snd (snd (start (s, w)))) =
      [Socket (socket_ret w), Setsockopt (socket_ret w)] @
      map (Bind (socket_ret w)) (map htons (m_port s # retry_ports (m_port s) w)) @
      [Perror ''bind failed after 10 attempts'', Close (socket_ret w)]"
    and "m_actualPort (fst (snd (start (s, w)))) = candidate (m_port s) w 9"
    and "m_port (fst (snd (start (s, w)))) = m_port s"
    and "m_backlog (fst (snd (start (s, w)))) = m_backlog s"
proof -
  obtain ok2 s2 w2 where bl: "bind_loop 0 (addressed s w) (opened w) = (ok2, s2, w2)"
    by (cases "bind_loop 0 (addressed s w) (opened w)")
  have "0 + 10 = (10::nat)" by simp
  moreover have "occupied (opened w) (sin_port (m_serverAddress (addressed s w)))"
    using req by (simp add: opened_simps addressed_simps)
  moreover have "\<forall>i<10. occupied (opened w)
      (htons (candidate (m_port (addressed s w)) (opened w) i))"
    using cands by (simp add: opened_simps addressed_simps)
  ultimately have facts:
    "\<not> ok2" "m_serverSocket s2 = socket_ret w" "m_running s2 = m_running s"
    "m_actualPort s2 = candidate (m_port s) w 9"
    "open_fds w2 = insert (socket_ret w) (open_fds w)"
    "trace w2 = trace w @ [Socket (socket_ret w), Setsockopt (socket_ret w)] @
       map (Bind (socket_ret w)) (map htons (m_port s # retry_ports (m_port s) w)) @
       [Perror ''bind failed after 10 attempts'']"
    using bind_loop_all_fail [of 0 10 "opened w" "addressed s w"] sock
    by (simp_all add: bl opened_simps addressed_simps retry_ports_def comp_def)
  have st: "start (s, w) = (False, s2, close_call (m_serverSocket s2) w2)"
    using facts(1) by (simp add: start_created [OF sock opt] bl)
  show "\<not> fst (start (s, w))" by (simp add: st)
  show "m_serverSocket (fst (snd (start (s, w)))) = socket_ret w" by (simp add: st facts)
  show "m_running (fst (snd (start (s, w)))) = m_running s" by (simp add: st facts)
  show "open_fds (snd (snd (start (s, w)))) = open_fds w - {socket_ret w}"
    by (simp add: st facts close_call_def emit_def)
  show "events_since w (snd (snd (start (s, w)))) =
      [Socket (socket_ret w), Setsockopt (socket_ret w)] @
      map (Bind (socket_ret w)) (map htons (m_port s # retry_ports (m_port s) w)) @
      [Perror ''bind failed after 10 attempts'', Close (socket_ret w)]"
    by (rule events_sinceI) (simp add: st facts close_call_def emit_def)
  show "m_actualPort (fst (snd (start (s, w)))) = candidate (m_port s) w 9"
    by (simp add: st facts)
  have "m_port s2 = m_port (addressed s w) \<and> m_backlog s2 = m_backlog (addressed s w)"
    using bind_loop_frame [of 0 "addressed s w" "opened w"] by (simp add: bl)
  then show "m_port (fst (snd (start (s, w)))) = m_port s"
    and "m_backlog (fst (snd (start (s, w)))) = m_backlog s"
    by (simp_all add: st addressed_simps)
qed

lemma listenSocket_ok:
  "0 \<le> listen_ret w \<Longrightarrow>
   listenSocket (s, w) =
     (True, s, print (ListeningBacklog (m_backlog s))
                 (emit (Listen (m_serverSocket s) (m_backlog s)) w))"
  by (simp add: listenSocket_def listen_call_def)

lemma start_first_bind:
  assumes sock: "0 \<le> socket_ret w" and opt: "0 \<le> setsockopt_ret w"
    and lis: "0 \<le> listen_ret w"
    and free: "\<not> occupied w (htons (m_port s))"
  shows "fst (start (s, w))"
    and "m_actualPort (fst (snd (start (s, w)))) = m_actualPort s"
    and "m_running (fst (snd (start (s, w))))"
    and "events_since w (snd (snd (start (s, w)))) =
      [Socket (socket_ret w), Setsockopt (socket_ret w), Bind (socket_ret w) (htons (m_port s)),
       Stdout (BoundTo (m_actualPort s)),
       Listen (socket_ret w) (m_backlog s), Stdout (ListeningBacklog (m_backlog s))]"
    and "m_serverSocket (fst (snd (start (s, w)))) = socket_ret w"
    and "open_fds (snd (snd (start (s, w)))) = insert (socket_ret w) (open_fds w)"
proof -
  have free': "\<not> occupied (opened w) (sin_port (m_serverAddress (addressed s w)))"
    using free by (simp add: opened_simps addressed_simps)
  have lis': "0 \<le> listen_ret (print m (emit e (opened w)))" for m e
    using lis by (simp add: opened_simps print_def emit_def)
  have st: "start (s, w) =
      (True, (addressed s w)\<lparr>m_running := True\<rparr>,
       print (ListeningBacklog (m_backlog s))
         (emit (Listen (socket_ret w) (m_backlog s))
           (print (BoundTo (m_actualPort s))
             (emit (Bind (socket_ret w) (htons (m_port s))) (opened w)))))"
    by (simp add: start_created [OF sock opt] bind_loop_free [OF free']
        listenSocket_ok [OF lis'] addressed_simps)
  show "fst (start (s, w))" by (simp add: st)
  show "m_actualPort (fst (snd (start (s, w)))) = m_actualPort s"
    by (simp add: st addressed_simps)
  show "m_running (fst (snd (start (s, w))))" by (simp add: st)
  show "events_since w (snd (snd (start (s, w)))) =
      [Socket (socket_ret w), Setsockopt (socket_ret w), Bind (socket_ret w) (htons (m_port s)),
       Stdout (BoundTo (m_actualPort s)),
       Listen (socket_ret w) (m_backlog s), Stdout (ListeningBacklog (m_backlog s))]"
    by (rule events_sinceI) (simp add: st print_def emit_def opened_simps)
  show "m_serverSocket (fst (snd (start (s, w)))) = socket_ret w"
    by (simp add: st addressed_simps)
  show "open_fds (snd (snd (start (s, w)))) = insert (socket_ret w) (open_fds w)"
    using sock by (simp add: st print_def emit_def opened_simps)
qed

lemma start_retry_succeeds:
  assumes sock: "0 \<le> socket_ret w" and opt: "0 \<le> setsockopt_ret w"
    and lis: "0 \<le> listen_ret w"
    and req: "occupied w (htons (m_port s))"
    and j: "j < 10"
    and before: "\<forall>i<j. occupied w (htons (candidate (m_port s) w i))"
    and free: "\<not> occupied w (htons (candidate (m_port s) w j))"
  shows "fst (start (s, w))"
    and "m_actualPort (fst (snd (start (s, w)))) = candidate (m_port s) w j"
    and "m_running (fst (snd (start (s, w))))"
    and "bind_ports (events_since w (snd (snd (start (s, w))))) =
           map htons (m_port s # map (candidate (m_port s) w) [0..<Suc j])"
    and "m_serverSocket (fst (snd (start (s, w)))) = socket_ret w"
    and "open_fds (snd (snd (start (s, w)))) = insert (socket_ret w) (open_fds w)"
    and "events_since w (snd (snd (start (s, w)))) =
      [Socket (socket_ret w), Setsockopt (socket_ret w)] @
       map (Bind (socket_ret w))
         (map htons (m_port s # map (candidate (m_port s) w) [0..<Suc j])) @
       [Stdout (BoundTo (candidate (m_port s) w j)),
        Listen (socket_ret w) (m_backlog s), Stdout (ListeningBacklog (m_backlog s))]"
proof -
  obtain ok2 s2 w2 where bl: "bind_loop 0 (addressed s w) (opened w) = (ok2, s2, w2)"
    by (cases "bind_loop 0 (addressed s w) (opened w)")
  have "0 + 10 = (10::nat)" by simp
  moreover note j
  moreover have "occupied (opened w) (sin_port (m_serverAddress (addressed s w)))"
    using req by (simp add: opened_simps addressed_simps)
  moreover have "\<forall>i<j. occupied (opened w)
      (htons (candidate (m_port (addressed s w)) (opened w) i))"
    using before by (simp add: opened_simps addressed_simps)
  moreover have "\<not> occupied (opened w)
      (htons (candidate (m_port (addressed s w)) (opened w) j))"
    using free by (simp add: opened_simps addressed_simps)
  ultimately have facts:
    "ok2" "m_actualPort s2 = candidate (m_port s) w j" "m_serverSocket s2 = socket_ret w"
    "m_backlog s2 = m_backlog s" "listen_ret w2 = listen_ret w"
    "open_fds w2 = insert (socket_ret w) (open_fds w)"
    "trace w2 = trace w @ [Socket (socket_ret w), Setsockopt (socket_ret w)] @
       map (Bind (socket_ret w))
         (map htons (m_port s # map (candidate (m_port s) w) [0..<Suc j])) @
       [Stdout (BoundTo (candidate (m_port s) w j))]"
    using bind_loop_first_free [of 0 10 j "opened w" "addressed s w"] sock
    by (simp_all add: bl opened_simps addressed_simps comp_def del: upt_Suc)
  have lis2: "0 \<le> listen_ret w2"
    using lis facts(5) by simp
  have st: "start (s, w) =
      (True, s2\<lparr>m_running := True\<rparr>,
       print (ListeningBacklog (m_backlog s))
         (emit (Listen (socket_ret w) (m_backlog s)) w2))"
    using facts(1) by (simp add: start_created [OF sock opt] bl listenSocket_ok [OF lis2] facts)
  show "fst (start (s, w))" by (simp add: st)
  show "m_actualPort (fst (snd (start (s, w)))) = candidate (m_port s) w j"
    by (simp add: st facts)
  show "m_running (fst (snd (start (s, w))))" by (simp add: st)
  show ev: "events_since w (snd (snd (start (s, w)))) =
      [Socket (socket_ret w), Setsockopt (socket_ret w)] @
       map (Bind (socket_ret w))
         (map htons (m_port s # map (candidate (m_port s) w) [0..<Suc j])) @
       [Stdout (BoundTo (candidate (m_port s) w j)),
        Listen (socket_ret w) (m_backlog s), Stdout (ListeningBacklog (m_backlog s))]"
    by (rule events_sinceI) (simp add: st facts print_def emit_def del: upt_Suc)
  then show "bind_ports (events_since w (snd (snd (start (s, w))))) =
           map htons (m_port s # map (candidate (m_port s) w) [0..<Suc j])"
    by (simp add: bind_ports_append bind_ports_map_comp del: upt_Suc)
  show "m_serverSocket (fst (snd (start (s, w)))) = socket_ret w"
    by (simp add: st facts)
  show "open_fds (snd (snd (start (s, w)))) = insert (socket_ret w) (open_fds w)"
    by (simp add: st facts print_def emit_def)
qed

lemma Server_collapse: "Server P b w = (fst (Server P b w), snd (Server P b w))"
  by simp

lemma Server_simps:
  "m_port (fst (Server P b w)) = P"
  "m_actualPort (fst (Server P b w)) = P"
  "m_backlog (fst (Server P b w)) = b"
  "m_serverSocket (fst (Server P b w)) = - 1"
  "m_running (fst (Server P b w)) = False"
  "socket_ret (snd (Server P b w)) = socket_ret w"
  "setsockopt_ret (snd (Server P b w)) = setsockopt_ret w"
  "listen_ret (snd (Server P b w)) = listen_ret w"
  "occupied (snd (Server P b w)) = occupied w"
  "open_fds (snd (Server P b w)) = open_fds w"
  "trace (snd (Server P b w)) = trace w"
  "events_since (snd (Server P b w)) w' = events_since w w'"
  "candidate Q (snd (Server P b w)) i = int_add Q (int (rand_gen w (time_now w) i mod 10))"
  by (simp_all add: Server_def srand_call_def time_call_def candidate_def draw_def
      events_since_def)

lemma candidate_range:
  assumes "- 2147483648 \<le> P" and "P \<le> 2147483638"
  shows "P \<le> candidate P w i \<and> candidate P w i \<le> P + 9"
proof -
  have k: "draw w i mod 10 < 10" by simp
  have "candidate P w i = P + int (draw w i mod 10)"
    unfolding candidate_def using assms k by (intro int_add_in_range) linarith+
  with k show ?thesis by linarith
qed

lemma all_occupied_candidate:
  assumes "all_occupied w P"
  shows "occupied w (htons P)" and "occupied w (htons (candidate P w' i))"
proof -
  have every: "occupied w (htons (P + int k))" if "k < 10" for k
    using assms that by (simp add: all_occupied_def list_all_iff)
  show "occupied w (htons P)"
    using every [of 0] by simp
  have "draw w' i mod 10 < 10" by simp
  then have "occupied w (htons (P + int (draw w' i mod 10)))"
    by (rule every)
  then show "occupied w (htons (candidate P w' i))"
    by (simp add: htons_candidate)
qed

lemma retry_ports_nth: "i < 10 \<Longrightarrow> retry_ports P w ! i = candidate P w i"
  by (simp add: retry_ports_def)

lemma first_free_None:
  "first_free w P = None \<Longrightarrow> i < 10 \<Longrightarrow> occupied w (htons (candidate P w i))"
  by (auto simp: first_free_def find_None_iff retry_ports_def)

lemma first_free_Some:
  assumes "first_free w P = Some q"
  obtains j where "j < 10" and "q = candidate P w j"
    and "\<not> occupied w (htons (candidate P w j))"
    and "\<forall>i<j. occupied w (htons (candidate P w i))"
    and "map (candidate P w) [0..<Suc j] =
           takeWhile (\<lambda>p. occupied w (htons p)) (retry_ports P w) @ [q]"
proof -
  from assms obtain j where j: "j < length (retry_ports P w)"
    and free: "\<not> occupied w (htons (retry_ports P w ! j))"
    and q: "q = retry_ports P w ! j"
    and before: "\<forall>i<j. occupied w (htons (retry_ports P w ! i))"
    unfolding first_free_def find_Some_iff by blast
  have j10: "j < 10" using j by (simp add: retry_ports_def)
  have "takeWhile (\<lambda>p. occupied w (htons p)) (retry_ports P w) = take j (retry_ports P w)"
    using before free by (intro takeWhile_eq_take_P_nth) simp_all
  also have "\<dots> = map (candidate P w) [0..<j]"
    using j10 by (simp add: retry_ports_def take_map)
  finally have tw: "takeWhile (\<lambda>p. occupied w (htons p)) (retry_ports P w) =
      map (candidate P w) [0..<j]" .
  show thesis
  proof (rule that [OF j10])
    show qj: "q = candidate P w j" using q j10 by (simp add: retry_ports_nth)
    show "\<not> occupied w (htons (candidate P w j))" using free j10 by (simp add: retry_ports_nth)
    show "\<forall>i<j. occupied w (htons (candidate P w i))"
      using before j10 by (simp add: retry_ports_nth)
    show "map (candidate P w) [0..<Suc j] =
        takeWhile (\<lambda>p. occupied w (htons p)) (retry_ports P w) @ [q]"
      by (simp add: tw qj)
  qed
qed

lemma upt_10: "[0..<10] = [0, 1, 2, 3, 4, 5, 6, 7, 8, 9]"
  by code_simp

lemma upt_1_10: "[Suc 0..<10] = [1, 2, 3, 4, 5, 6, 7, 8, 9]"
  by code_simp

lemmas sample_defs =
  sample_world_def every_port_def no_port_def all_but_8085_def step3_gen_def even_gen_def
  htons_def int_add_def

lemma first_free_even:
  "first_free (snd (Server 8080 10 (sample_world all_but_8085 even_gen))) 8080 = None"
  by (simp add: first_free_def retry_ports_def upt_10 Server_simps sample_defs)

lemma first_free_step3:
  "first_free (snd (Server 8080 10 (sample_world all_but_8085 step3_gen))) 8080 = Some 8085"
  by (simp add: first_free_def retry_ports_def upt_10 Server_simps sample_defs)

section \<open>What no member function touches\<close>

lemma createSocket_frame:
  "m_port (fst (snd (createSocket sw))) = m_port (fst sw) \<and>
   m_backlog (fst (snd (createSocket sw))) = m_backlog (fst sw)"
  by (cases sw) (simp add: createSocket_def socket_call_def setsockopt_call_def Let_def)

lemma bindSocket_frame:
  "m_port (fst (snd (bindSocket sw))) = m_port (fst sw) \<and>
   m_backlog (fst (snd (bindSocket sw))) = m_backlog (fst sw)"
  by (cases sw) (simp add: bindSocket_def bind_loop_frame)

lemma listenSocket_frame:
  "m_port (fst (snd (listenSocket sw))) = m_port (fst sw) \<and>
   m_backlog (fst (snd (listenSocket sw))) = m_backlog (fst sw)"
  by (cases sw) (simp add: listenSocket_def listen_call_def)

lemma start_frame:
  "m_port (fst (snd (start sw))) = m_port (fst sw) \<and>
   m_backlog (fst (snd (start sw))) = m_backlog (fst sw)"
proof -
  obtain ok1 s1 w1 where c: "createSocket sw = (ok1, s1, w1)"
    by (cases "createSocket sw")
  obtain ok2 s2 w2 where b: "bindSocket (s1, w1) = (ok2, s2, w2)"
    by (cases "bindSocket (s1, w1)")
  obtain ok3 s3 w3 where l: "listenSocket (s2, w2) = (ok3, s3, w3)"
    by (cases "listenSocket (s2, w2)")
  have "m_port s1 = m_port (fst sw) \<and> m_backlog s1 = m_backlog (fst sw)"
    using createSocket_frame [of sw] by (simp add: c)
  moreover have "m_port s2 = m_port s1 \<and> m_backlog s2 = m_backlog s1"
    using bindSocket_frame [of "(s1, w1)"] by (simp add: b)
  moreover have "m_port s3 = m_port s2 \<and> m_backlog s3 = m_backlog s2"
    using listenSocket_frame [of "(s2, w2)"] by (simp add: l)
  ultimately show ?thesis
    by (simp add: start_def c b l)
qed

lemma bind_loop_answers:
  "socket_ret (snd (snd (bind_loop a s w))) = socket_ret w \<and>
   setsockopt_ret (snd (snd (bind_loop a s w))) = setsockopt_ret w \<and>
   listen_ret (snd (snd (bind_loop a s w))) = listen_ret w"
proof (induction "10 - a" arbitrary: a s w)
  case 0
  then have a: "10 \<le> a" by simp
  show ?case
  proof (cases "occupied w (sin_port (m_serverAddress s))")
    case True
    then show ?thesis
      by (simp add: bind_loop_exhausted [OF True a] perror_def emit_def)
  next
    case False
    then show ?thesis by (simp add: bind_loop_free print_def emit_def)
  qed
next
  case (Suc n)
  then have a: "a < 10" and n: "n = 10 - Suc a" by simp_all
  show ?case
  proof (cases "occupied w (sin_port (m_serverAddress s))")
    case True
    show ?thesis
      unfolding bind_loop_retry [OF True a]
      using Suc.hyps(1) [OF n, of "retry s w" "after_bind s w"]
      by (simp add: after_bind_def rand_call_def emit_def)
  next
    case False
    then show ?thesis by (simp add: bind_loop_free print_def emit_def)
  qed
qed

lemma start_answers:
  "socket_ret (snd (snd (start (s, w)))) = socket_ret w \<and>
   setsockopt_ret (snd (snd (start (s, w)))) = setsockopt_ret w \<and>
   listen_ret (snd (snd (start (s, w)))) = listen_ret w"
proof -
  obtain ok1 s1 w1 where c: "createSocket (s, w) = (ok1, s1, w1)"
    by (cases "createSocket (s, w)")
  obtain ok2 s2 w2 where b: "bindSocket (s1, w1) = (ok2, s2, w2)"
    by (cases "bindSocket (s1, w1)")
  obtain ok3 s3 w3 where l: "listenSocket (s2, w2) = (ok3, s3, w3)"
    by (cases "listenSocket (s2, w2)")
  have "socket_ret w1 = socket_ret w \<and> setsockopt_ret w1 = setsockopt_ret w \<and>
        listen_ret w1 = listen_ret w"
    using c
    by (auto simp: createSocket_def socket_call_def setsockopt_call_def perror_def emit_def
        Let_def split: if_splits)
  moreover have "socket_ret w2 = socket_ret w1 \<and> setsockopt_ret w2 = setsockopt_ret w1 \<and>
        listen_ret w2 = listen_ret w1"
    using b
      bind_loop_answers [of 0
        "s1\<lparr>m_serverAddress :=
          \<lparr>sin_family = AF_INET, sin_addr = INADDR_ANY, sin_port = htons (m_port s1)\<rparr>\<rparr>" w1]
    by (simp add: bindSocket_def)
  moreover have "socket_ret w3 = socket_ret w2 \<and> setsockopt_ret w3 = setsockopt_ret w2 \<and>
        listen_ret w3 = listen_ret w2"
    using l
    by (auto simp: listenSocket_def listen_call_def perror_def print_def emit_def
        split: if_splits)
  ultimately show ?thesis
    by (simp add: start_def c b l close_call_def emit_def)
qed

lemma stop_frame:
  "m_port (fst (stop sw)) = m_port (fst sw) \<and> m_backlog (fst (stop sw)) = m_backlog (fst sw)"
  by (cases sw) (simp add: stop_def Let_def)

lemma handleClient_frame: "fst (handleClient fd addr sw) = fst sw"
  by (cases sw) (simp add: handleClient_def Let_def)

lemma accepted_frame:
  "m_port (fst (accepted e sw)) = m_port (fst sw) \<and>
   m_backlog (fst (accepted e sw)) = m_backlog (fst sw)"
  by (simp add: accepted_def Let_def stop_frame)

lemma run_loop_frame:
  "m_port (fst (final (run_loop es sw))) = m_port (fst sw) \<and>
   m_backlog (fst (final (run_loop es sw))) = m_backlog (fst sw)"
proof (induction es arbitrary: sw)
  case Nil
  show ?case by simp
next
  case (Cons e es)
  show ?case
    by (simp add: Let_def Cons.IH handleClient_frame accepted_frame)
qed

section \<open>The accept loop\<close>

lemma started_eq:
  "started =
     (\<lparr>m_serverSocket = 3, m_port = 8080, m_actualPort = 8080, m_backlog = 10,
       m_running = True,
       m_serverAddress = \<lparr>sin_family = 2, sin_addr = 0, sin_port = 8080\<rparr>\<rparr>,
      \<lparr>socket_ret = 3, setsockopt_ret = 0, listen_ret = 0, occupied = no_port, time_now = 0,
       rand_gen = step3_gen, rand_seed = 0, rand_count = 0, inbound = no_data,
       open_fds = {0, 1, 2, 3},
       trace = [Socket 3, Setsockopt 3, Bind 3 8080, Stdout (BoundTo 8080), Listen 3 10,
                Stdout (ListeningBacklog 10)]\<rparr>)"
  by (simp add: started_def start_def createSocket_def bindSocket_def listenSocket_def
      bind_loop.simps bind_call_def socket_call_def setsockopt_call_def listen_call_def
      Server_def srand_call_def time_call_def sample_world_def no_port_def [abs_def]
      print_def emit_def htons_def AF_INET_def INADDR_ANY_def Let_def insert_commute)

lemma accepted_failed:
  "accept_ret e < 0 \<Longrightarrow>
   accepted e (s, w) =
     (if stop_called e then stop (s, emit (Accept (m_serverSocket s)) w)
      else (s, emit (Accept (m_serverSocket s)) w))"
  by (simp add: accepted_def accept_call_def)

lemma run_loop_keeps_failing:
  "m_running s \<Longrightarrow> keeps_failing fs \<Longrightarrow>
   run_loop (fs @ es) (s, w) =
     run_loop es (s, w\<lparr>trace := trace w @ failure_reports (m_serverSocket s) fs\<rparr>)"
proof (induction fs arbitrary: w)
  case Nil
  show ?case by (simp add: failure_reports_def)
next
  case (Cons f fs)
  from Cons.prems have f: "accept_ret f < 0" "\<not> stop_called f" and fs: "keeps_failing fs"
    by (simp_all add: keeps_failing_def)
  have "run_loop ((f # fs) @ es) (s, w) =
        run_loop (fs @ es) (s, perror ''accept failed'' (emit (Accept (m_serverSocket s)) w))"
    using Cons.prems(1) f by (simp add: accepted_failed)
  also have "\<dots> = run_loop es
      (s, (perror ''accept failed'' (emit (Accept (m_serverSocket s)) w))
            \<lparr>trace := trace (perror ''accept failed'' (emit (Accept (m_serverSocket s)) w)) @
               failure_reports (m_serverSocket s) fs\<rparr>)"
    by (rule Cons.IH [OF Cons.prems(1) fs])
  also have "(perror ''accept failed'' (emit (Accept (m_serverSocket s)) w))
            \<lparr>trace := trace (perror ''accept failed'' (emit (Accept (m_serverSocket s)) w)) @
               failure_reports (m_serverSocket s) fs\<rparr> =
        w\<lparr>trace := trace w @ failure_reports (m_serverSocket s) (f # fs)\<rparr>"
    by (simp add: perror_def emit_def failure_reports_def)
  finally show ?case .
qed

lemma stop_started:
  "stop (fst started, w) =
     ((fst started)\<lparr>m_running := False, m_serverSocket := - 1\<rparr>,
      print ServerStopped (close_call 3 w))"
  by (simp add: started_eq stop_def Let_def)

lemma response_bytes:
  "take (strlen response) response =
     ''HTTP/1.1 200 OK'' @ [CHR 0x0D, CHR 0x0A] @
     ''Content-Type: text/plain'' @ [CHR 0x0D, CHR 0x0A] @
     ''Content-Length: 13'' @ [CHR 0x0D, CHR 0x0A] @
     [CHR 0x0D, CHR 0x0A] @
     ''Hello, World!''"
  by (simp add: response_def strlen_def)

lemma handleClient_events:
  "trace (snd (handleClient fd addr (s, w))) =
     trace w @
     [Stdout (ClientConnected (sin_addr addr) (ntohs (sin_port addr))),
      Send fd (take (strlen response) response), Close fd, Stdout ClientDisconnected]"
  "open_fds (snd (handleClient fd addr (s, w))) = open_fds w - {fd}"
  by (simp_all add: handleClient_def Let_def print_def send_call_def close_call_def emit_def)

section \<open>A fresh listener\<close>

text \<open>
  Claim C9. For every port \<open>p\<close> and backlog \<open>b\<close>, the listener the constructor returns
  reports \<open>p\<close> from \<open>getPort\<close>, has a negative socket handle and is not running.
\<close>

theorem Server_fresh:
  "getPort (fst (Server p b w)) = p \<and>
   m_serverSocket (fst (Server p b w)) < 0 \<and>
   \<not> m_running (fst (Server p b w))"
  by (simp add: Server_def getPort_def)

section \<open>Binding with retry\<close>

text \<open>
  On a freshly constructed listener, a free requested port \<open>P\<close> makes \<open>start()\<close>
  succeed (with \<open>socket\<close>, \<open>setsockopt\<close> and \<open>listen\<close> succeeding): the socket is
  created and left open, there is one \<open>bind\<close> call, on the requested port, the socket
  is put to listening with the backlog, the listener is running and \<open>getPort()\<close>
  returns \<open>P\<close>, which is what the constructor stored in \<open>m_actualPort\<close>.
\<close>

lemma start_fresh_free_port:
  assumes "0 \<le> socket_ret w" and "0 \<le> setsockopt_ret w" and "0 \<le> listen_ret w"
    and "\<not> occupied w (htons P)"
  shows "fst (start (Server P b w)) \<and>
         getPort (fst (snd (start (Server P b w)))) = P \<and>
         m_running (fst (snd (start (Server P b w)))) \<and>
         m_serverSocket (fst (snd (start (Server P b w)))) = socket_ret w \<and>
         socket_ret w \<in> open_fds (snd (snd (start (Server P b w)))) \<and>
         events_since w (snd (snd (start (Server P b w)))) =
           [Socket (socket_ret w), Setsockopt (socket_ret w),
            Bind (socket_ret w) (htons P), Stdout (BoundTo P),
            Listen (socket_ret w) b, Stdout (ListeningBacklog b)]"
proof -
  let ?s = "fst (Server P b w)" and ?w = "snd (Server P b w)"
  have env: "0 \<le> socket_ret ?w" "0 \<le> setsockopt_ret ?w" "0 \<le> listen_ret ?w"
    "\<not> occupied ?w (htons (m_port ?s))"
    using assms by (simp_all add: Server_simps)
  note facts = start_first_bind [OF env]
  show ?thesis
    using facts by (simp add: getPort_def Server_simps)
qed

text \<open>
  Claim C4: for every requested port \<open>P\<close> that is free, \<open>start()\<close> succeeds and
  \<open>getPort()\<close> returns exactly \<open>P\<close>. The code breaks it on a listener whose earlier
  \<open>start()\<close> failed after retrying. \<open>bindSocket\<close> sets \<open>sin_port\<close> from \<open>m_port\<close>
  again (line 66) but not \<open>m_actualPort\<close>, which is assigned only by the constructor
  and by a retry (line 76) and so still holds the last candidate of the failed run.
  Evaluated: the listener for port 8080 fails to start with every port occupied, its
  last retry having drawn 8087; the ports are released; the second \<open>start()\<close> binds
  port 8080 at the first call and succeeds, and \<open>getPort()\<close> returns 8087, not 8080,
  against the accessor's own description (the port the server is actually bound to);
  the line printed after the \<open>bind\<close> names 8087 as well.
\<close>

theorem restart_reports_stale_port:
  "\<not> fst (start (Server 8080 10 (sample_world every_port step3_gen))) \<and>
   m_port (fst ports_released) = 8080 \<and>
   \<not> occupied (snd ports_released) (htons 8080) \<and>
   fst (start ports_released) \<and>
   m_running (fst (snd (start ports_released))) \<and>
   events_since (snd ports_released) (snd (snd (start ports_released))) =
     [Socket 3, Setsockopt 3, Bind 3 8080, Stdout (BoundTo 8087), Listen 3 10,
      Stdout (ListeningBacklog 10)] \<and>
   getPort (fst (snd (start ports_released))) = 8087 \<and>
   getPort (fst (snd (start ports_released))) \<noteq> m_port (fst (snd (start ports_released)))"
proof -
  let ?s = "fst (Server 8080 10 (sample_world every_port step3_gen))"
  let ?w = "snd (Server 8080 10 (sample_world every_port step3_gen))"
  have env: "0 \<le> socket_ret ?w" "0 \<le> setsockopt_ret ?w" "occupied ?w (htons (m_port ?s))"
    "\<forall>i<10. occupied ?w (htons (candidate (m_port ?s) ?w i))"
    by (simp_all add: Server_simps(6,7,9) sample_world_def every_port_def)
  note first = start_binds_exhausted [OF env]
  have failed: "\<not> fst (start (Server 8080 10 (sample_world every_port step3_gen)))"
    using first(1) by simp
  have obj: "m_port (fst failed_once) = 8080" "m_backlog (fst failed_once) = 10"
    "m_actualPort (fst failed_once) = 8087"
    using first(6,7,8) by (simp_all add: failed_once_def Server_simps sample_defs)
  have frame: "socket_ret (snd (snd (start (s, w)))) = socket_ret w \<and>
      setsockopt_ret (snd (snd (start (s, w)))) = setsockopt_ret w \<and>
      listen_ret (snd (snd (start (s, w)))) = listen_ret w" for s w
    by (rule start_answers)
  have world: "socket_ret (snd failed_once) = 3" "setsockopt_ret (snd failed_once) = 0"
    "listen_ret (snd failed_once) = 0"
    using frame [of ?s ?w] by (simp_all add: failed_once_def Server_simps sample_world_def)
  have env2: "0 \<le> socket_ret (snd ports_released)" "0 \<le> setsockopt_ret (snd ports_released)"
    "0 \<le> listen_ret (snd ports_released)"
    "\<not> occupied (snd ports_released) (htons (m_port (fst ports_released)))"
    by (simp_all add: ports_released_def world no_port_def)
  note second = start_first_bind [OF env2]
  have pr: "m_port (fst ports_released) = 8080" "m_actualPort (fst ports_released) = 8087"
    "m_backlog (fst ports_released) = 10" "socket_ret (snd ports_released) = 3"
    "\<not> occupied (snd ports_released) (htons 8080)"
    by (simp_all add: ports_released_def obj world no_port_def)
  have port: "m_port (fst (snd (start ports_released))) = 8080"
    using start_frame [of ports_released] by (simp add: pr)
  show ?thesis
    using failed second pr port by (simp add: getPort_def htons_def)
qed

text \<open>
  Claim C1 says that with \<open>P\<close> and all of \<open>P+1\<close> to \<open>P+9\<close> occupied, \<open>start()\<close> fails
  after exactly 10 bind attempts. The loop calls \<open>bind\<close> before it tests the counter:
  the first call is on the requested port with \<open>attempts = 0\<close>, each of the ten retries
  adds one call, and the eleventh failure is the one that finds \<open>attempts >= 10\<close>.
  With every port occupied from 8080 on, \<open>bind\<close> is called 11 times, not 10.
\<close>

theorem eleven_binds_when_all_occupied:
  "all_occupied (sample_world every_port step3_gen) 8080 \<and>
   \<not> fst (start (Server 8080 10 (sample_world every_port step3_gen))) \<and>
   length (bind_ports (events_since (sample_world every_port step3_gen)
     (snd (snd (start (Server 8080 10 (sample_world every_port step3_gen))))))) = 11 \<and>
   length (bind_ports (events_since (sample_world every_port step3_gen)
     (snd (snd (start (Server 8080 10 (sample_world every_port step3_gen))))))) \<noteq> 10"
proof -
  let ?s = "fst (Server 8080 10 (sample_world every_port step3_gen))"
  let ?w = "snd (Server 8080 10 (sample_world every_port step3_gen))"
  have env: "0 \<le> socket_ret ?w" "0 \<le> setsockopt_ret ?w" "occupied ?w (htons (m_port ?s))"
    "\<forall>i<10. occupied ?w (htons (candidate (m_port ?s) ?w i))"
    by (simp_all add: Server_simps(6,7,9) sample_world_def every_port_def)
  note facts = start_binds_exhausted [OF env]
  have "length (bind_ports (events_since (sample_world every_port step3_gen)
     (snd (snd (start (?s, ?w)))))) = 11"
    using facts(5)
    by (simp add: Server_simps(12) bind_ports_append bind_ports_map_comp retry_ports_def)
  moreover have "all_occupied (sample_world every_port step3_gen) 8080"
    by (simp add: all_occupied_def list_all_iff sample_world_def every_port_def)
  ultimately show ?thesis
    using facts(1) by simp
qed

text \<open>
  Claim C1, amended. If the requested port \<open>P\<close> and every port in \<open>P+1\<close> to \<open>P+9\<close> are
  occupied (and the socket was created), \<open>start()\<close> returns failure after exactly 11
  calls of \<open>bind\<close>: one on the requested port, then 10 retries, the \<open>i\<close>-th of them on
  \<open>P + (rand() mod 10)\<close> for the \<open>i\<close>-th value of \<open>rand()\<close>. It then reports
  "bind failed after 10 attempts" and closes the socket.
\<close>

theorem start_all_occupied:
  assumes "0 \<le> socket_ret w" and "0 \<le> setsockopt_ret w" and "all_occupied w P"
  shows "\<not> fst (start (Server P b w)) \<and>
         events_since w (snd (snd (start (Server P b w)))) =
           [Socket (socket_ret w), Setsockopt (socket_ret w)] @
           map (Bind (socket_ret w))
             (htons P # map (\<lambda>i. htons (P + int (rand_gen w (time_now w) i mod 10))) [0..<10]) @
           [Perror ''bind failed after 10 attempts'', Close (socket_ret w)] \<and>
         length (bind_ports (events_since w (snd (snd (start (Server P b w)))))) = 11"
proof -
  let ?s = "fst (Server P b w)" and ?w = "snd (Server P b w)"
  have occ: "all_occupied ?w P"
    using assms(3) by (simp add: all_occupied_def Server_simps)
  have env: "0 \<le> socket_ret ?w" "0 \<le> setsockopt_ret ?w"
    "occupied ?w (htons (m_port ?s))"
    "\<forall>i<10. occupied ?w (htons (candidate (m_port ?s) ?w i))"
    using assms(1,2) all_occupied_candidate [OF occ]
    by (simp_all add: Server_simps(1,6,7))
  note facts = start_binds_exhausted [OF env]
  have ev: "events_since w (snd (snd (start (Server P b w)))) =
           [Socket (socket_ret w), Setsockopt (socket_ret w)] @
           map (Bind (socket_ret w))
             (htons P # map (\<lambda>i. htons (P + int (rand_gen w (time_now w) i mod 10))) [0..<10]) @
           [Perror ''bind failed after 10 attempts'', Close (socket_ret w)]"
    using facts(5) by (simp add: Server_simps retry_ports_def comp_def htons_int_add)
  have "length (bind_ports (events_since w (snd (snd (start (Server P b w)))))) = 11"
    unfolding ev by (simp add: bind_ports_append bind_ports_map_comp)
  with facts(1) ev show ?thesis by simp
qed

text \<open>The theorem at port 18081 with every port occupied.\<close>

theorem start_all_occupied_witness:
  "all_occupied (sample_world every_port even_gen) 18081 \<and>
   \<not> fst (start (Server 18081 10 (sample_world every_port even_gen))) \<and>
   bind_ports (events_since (sample_world every_port even_gen)
     (snd (snd (start (Server 18081 10 (sample_world every_port even_gen)))))) =
   [18081, 18081, 18083, 18085, 18087, 18089, 18081, 18083, 18085, 18087, 18089]"
proof -
  have occ: "all_occupied (sample_world every_port even_gen) 18081"
    by (simp add: all_occupied_def list_all_iff sample_world_def every_port_def)
  have env: "0 \<le> socket_ret (sample_world every_port even_gen)"
    "0 \<le> setsockopt_ret (sample_world every_port even_gen)"
    by (simp_all add: sample_world_def)
  from start_all_occupied [OF env occ, of 10] occ show ?thesis
    by (simp add: bind_ports_append bind_ports_map upt_10 sample_defs)
qed

text \<open>
  Claim C5 says that when \<open>P\<close> is occupied and some port in \<open>P+1\<close> to \<open>P+9\<close> is free,
  \<open>start()\<close> succeeds. The retries do not scan the range: each one draws
  \<open>P + (rand() mod 10)\<close>, so ten draws can all miss the free port. With only port 8085
  free and a generator that returns even numbers, every retry lands on an occupied
  port and \<open>start()\<close> fails.
\<close>

theorem retry_misses_free_port:
  "occupied (sample_world all_but_8085 even_gen) (htons 8080) \<and>
   some_free (sample_world all_but_8085 even_gen) 8080 \<and>
   \<not> fst (start (Server 8080 10 (sample_world all_but_8085 even_gen)))"
proof -
  let ?s = "fst (Server 8080 10 (sample_world all_but_8085 even_gen))"
  let ?w = "snd (Server 8080 10 (sample_world all_but_8085 even_gen))"
  have "\<forall>i<10. occupied ?w (htons (candidate (m_port ?s) ?w i))"
    using first_free_None [OF first_free_even] by (simp add: Server_simps(1))
  moreover have "0 \<le> socket_ret ?w" "0 \<le> setsockopt_ret ?w" "occupied ?w (htons (m_port ?s))"
    by (simp_all add: Server_simps sample_defs)
  ultimately have "\<not> fst (start (?s, ?w))"
    by (intro start_binds_exhausted(1))
  moreover have "some_free (sample_world all_but_8085 even_gen) 8080"
    by (simp add: some_free_def upt_1_10 sample_defs)
  ultimately show ?thesis
    by (simp add: sample_defs)
qed

text \<open>
  Claim C5, amended. For every listener whose requested port \<open>P\<close> (an \<open>int\<close> with
  \<open>P + 9\<close> in range) is occupied, \<open>start()\<close> succeeds if and only if one of the ten
  retry candidates \<open>P + (rand() mod 10)\<close> is free, with \<open>socket\<close>, \<open>setsockopt\<close> and
  \<open>listen\<close> succeeding. In that case the socket is created and left open, \<open>bind\<close> is
  called on \<open>P\<close>, on the occupied candidates before the first free one and on that
  one, the socket is put to listening, the listener is running, and \<open>getPort()\<close>
  returns the first free candidate, a value in the range \<open>P\<close> to \<open>P+9\<close> and different
  from \<open>P\<close>. Otherwise \<open>start()\<close> fails after the ten retries, with the socket closed
  and the running flag untouched.
\<close>

theorem start_occupied_retry:
  assumes "0 \<le> socket_ret w" and "0 \<le> setsockopt_ret w" and "0 \<le> listen_ret w"
    and "occupied w (htons (m_port s))"
    and "- 2147483648 \<le> m_port s" and "m_port s \<le> 2147483638"
  shows "case first_free w (m_port s) of
           None \<Rightarrow>
             \<not> fst (start (s, w)) \<and>
             m_running (fst (snd (start (s, w)))) = m_running s \<and>
             open_fds (snd (snd (start (s, w)))) = open_fds w - {socket_ret w} \<and>
             events_since w (snd (snd (start (s, w)))) =
               [Socket (socket_ret w), Setsockopt (socket_ret w)] @
               map (Bind (socket_ret w)) (map htons (m_port s # retry_ports (m_port s) w)) @
               [Perror ''bind failed after 10 attempts'', Close (socket_ret w)]
         | Some q \<Rightarrow>
             fst (start (s, w)) \<and>
             getPort (fst (snd (start (s, w)))) = q \<and>
             m_port s \<le> q \<and> q \<le> m_port s + 9 \<and> q \<noteq> m_port s \<and>
             m_running (fst (snd (start (s, w)))) \<and>
             m_serverSocket (fst (snd (start (s, w)))) = socket_ret w \<and>
             socket_ret w \<in> open_fds (snd (snd (start (s, w)))) \<and>
             events_since w (snd (snd (start (s, w)))) =
               [Socket (socket_ret w), Setsockopt (socket_ret w)] @
               map (Bind (socket_ret w))
                 (map htons
                   (m_port s #
                    takeWhile (\<lambda>p. occupied w (htons p)) (retry_ports (m_port s) w) @ [q])) @
               [Stdout (BoundTo q), Listen (socket_ret w) (m_backlog s),
                Stdout (ListeningBacklog (m_backlog s))]"
proof (cases "first_free w (m_port s)")
  case None
  have "\<forall>i<10. occupied w (htons (candidate (m_port s) w i))"
    using first_free_None [OF None] by simp
  note facts = start_binds_exhausted [OF assms(1,2,4) this]
  show ?thesis
    using facts(1,3,4,5) None by simp
next
  case (Some q)
  then obtain j where j: "j < 10" and q: "q = candidate (m_port s) w j"
    and free: "\<not> occupied w (htons (candidate (m_port s) w j))"
    and before: "\<forall>i<j. occupied w (htons (candidate (m_port s) w i))"
    and tried: "map (candidate (m_port s) w) [0..<Suc j] =
      takeWhile (\<lambda>p. occupied w (htons p)) (retry_ports (m_port s) w) @ [q]"
    by (rule first_free_Some)
  note facts = start_retry_succeeds [OF assms(1-4) j before free]
  have "q \<noteq> m_port s"
    using free assms(4) q by auto
  moreover have "m_port s \<le> q \<and> q \<le> m_port s + 9"
    unfolding q using assms(5,6) by (rule candidate_range)
  moreover have "getPort (fst (snd (start (s, w)))) = q"
    using facts(2) by (simp add: getPort_def q)
  moreover have "socket_ret w \<in> open_fds (snd (snd (start (s, w))))"
    using facts(6) by simp
  moreover have "events_since w (snd (snd (start (s, w)))) =
      [Socket (socket_ret w), Setsockopt (socket_ret w)] @
      map (Bind (socket_ret w))
        (map htons
          (m_port s #
           takeWhile (\<lambda>p. occupied w (htons p)) (retry_ports (m_port s) w) @ [q])) @
      [Stdout (BoundTo q), Listen (socket_ret w) (m_backlog s),
       Stdout (ListeningBacklog (m_backlog s))]"
    using facts(7) unfolding tried q [symmetric] .
  ultimately show ?thesis
    using facts(1,3,5) Some by simp
qed

text \<open>
  The theorem at a fresh listener for port 8080 with only port 8085 free, where the
  sixth retry draws 8085.
\<close>

theorem start_occupied_retry_witness:
  "occupied (sample_world all_but_8085 step3_gen) (htons 8080) \<and>
   first_free (snd (Server 8080 10 (sample_world all_but_8085 step3_gen))) 8080 = Some 8085 \<and>
   fst (start (Server 8080 10 (sample_world all_but_8085 step3_gen))) \<and>
   getPort (fst (snd (start (Server 8080 10 (sample_world all_but_8085 step3_gen))))) = 8085 \<and>
   m_running (fst (snd (start (Server 8080 10 (sample_world all_but_8085 step3_gen))))) \<and>
   bind_ports (events_since (sample_world all_but_8085 step3_gen)
     (snd (snd (start (Server 8080 10 (sample_world all_but_8085 step3_gen)))))) =
     [8080, 8080, 8083, 8086, 8089, 8082, 8085]"
proof -
  let ?s = "fst (Server 8080 10 (sample_world all_but_8085 step3_gen))"
  let ?w = "snd (Server 8080 10 (sample_world all_but_8085 step3_gen))"
  have env: "0 \<le> socket_ret ?w" "0 \<le> setsockopt_ret ?w" "0 \<le> listen_ret ?w"
    "occupied ?w (htons (m_port ?s))" "- 2147483648 \<le> m_port ?s" "m_port ?s \<le> 2147483638"
    by (simp_all add: Server_simps sample_defs)
  have tried: "takeWhile (\<lambda>p. occupied ?w (htons p)) (retry_ports 8080 ?w) =
      [8080, 8083, 8086, 8089, 8082]"
    by (simp add: retry_ports_def upt_10 Server_simps sample_defs)
  from start_occupied_retry [OF env] show ?thesis
    by (simp add: Server_simps(1) first_free_step3 tried bind_ports_append bind_ports_map)
       (simp add: Server_simps sample_defs)
qed

section \<open>The failure exits of \<open>start\<close>\<close>

text \<open>
  Claim C2: the socket handle is non-negative exactly when the listener is bound,
  listening or running, every failure exit of \<open>start()\<close> leaves the socket closed,
  and after \<open>stop()\<close> the handle is invalid and the listener not running. The last
  part holds (see the section on stopping); the first two do not hold of the code.
  When \<open>setsockopt\<close> fails, \<open>createSocket\<close>
  returns false and \<open>start()\<close> returns at once without the \<open>close\<close> that its two
  other failure exits make: the socket stays open. When \<open>bind\<close> (or \<open>listen\<close>) fails,
  \<open>start()\<close> closes the socket but leaves \<open>m_serverSocket\<close> non-negative, where
  \<open>stop()\<close> sets it to \<open>-1\<close>: the handle is non-negative although the listener is
  neither bound nor running, and the \<open>stop()\<close> of the destructor closes the
  descriptor a second time. Both runs, evaluated: the first with \<open>setsockopt\<close>
  failing, the second with every port occupied.
\<close>

theorem failed_start_keeps_handle:
  "\<not> fst (start (Server 8080 10 sockopt_fails_world)) \<and>
   m_serverSocket (fst (snd (start (Server 8080 10 sockopt_fails_world)))) = 3 \<and>
   \<not> m_running (fst (snd (start (Server 8080 10 sockopt_fails_world)))) \<and>
   3 \<in> open_fds (snd (snd (start (Server 8080 10 sockopt_fails_world)))) \<and>
   events_since sockopt_fails_world (snd (snd (start (Server 8080 10 sockopt_fails_world)))) =
     [Socket 3, Setsockopt 3, Perror ''setsockopt failed''] \<and>
   \<not> fst (start (Server 8080 10 (sample_world every_port step3_gen))) \<and>
   m_serverSocket (fst (snd (start (Server 8080 10 (sample_world every_port step3_gen))))) = 3 \<and>
   \<not> m_running (fst (snd (start (Server 8080 10 (sample_world every_port step3_gen))))) \<and>
   3 \<notin> open_fds (snd (snd (start (Server 8080 10 (sample_world every_port step3_gen))))) \<and>
   events_since (snd (snd (start (Server 8080 10 (sample_world every_port step3_gen)))))
     (snd (stop (snd (start (Server 8080 10 (sample_world every_port step3_gen)))))) =
     [Close 3, Stdout ServerStopped]"
proof -
  have a: "start (Server 8080 10 sockopt_fails_world) =
      (False, (fst (Server 8080 10 sockopt_fails_world))\<lparr>m_serverSocket := 3\<rparr>,
       perror ''setsockopt failed''
         (emit (Setsockopt 3) (emit (Socket 3)
           ((snd (Server 8080 10 sockopt_fails_world))\<lparr>open_fds := {0, 1, 2, 3}\<rparr>))))"
    by (simp add: start_def createSocket_def socket_call_def setsockopt_call_def Let_def
        Server_def srand_call_def time_call_def sockopt_fails_world_def sample_world_def
        emit_def perror_def insert_commute)
  let ?s = "fst (Server 8080 10 (sample_world every_port step3_gen))"
  let ?w = "snd (Server 8080 10 (sample_world every_port step3_gen))"
  have env: "0 \<le> socket_ret ?w" "0 \<le> setsockopt_ret ?w" "occupied ?w (htons (m_port ?s))"
    "\<forall>i<10. occupied ?w (htons (candidate (m_port ?s) ?w i))"
    by (simp_all add: Server_simps(6,7,9) sample_world_def every_port_def)
  note facts = start_binds_exhausted [OF env]
  obtain s' w' where sw': "snd (start (?s, ?w)) = (s', w')"
    by (cases "snd (start (?s, ?w))")
  have b: "\<not> fst (start (?s, ?w))" "m_serverSocket s' = 3" "\<not> m_running s'"
    "3 \<notin> open_fds w'"
    using facts(1-4) sw' by (simp_all add: Server_simps sample_world_def)
  have c: "events_since w' (snd (stop (s', w'))) = [Close 3, Stdout ServerStopped]"
    using b(2) by (simp add: stop_def Let_def events_since_def print_def close_call_def emit_def)
  show ?thesis
    using b c sw'
    by (simp add: a Server_simps events_since_def perror_def emit_def)
qed

section \<open>Stopping\<close>

text \<open>
  Claim C6. \<open>stop()\<close> is idempotent. It sets \<open>m_running\<close> to false; if the socket
  handle is non-negative it closes that descriptor and sets the handle to \<open>-1\<close>, and
  otherwise it leaves the handle and the world alone. A second call right after the
  first changes nothing and makes no call, also when the first call follows a
  \<open>start()\<close> (failed or not). \<open>stop\<close> has no error exit.
\<close>

theorem stop_idempotent:
  "stop (stop sw) = stop sw \<and>
   \<not> m_running (fst (stop sw)) \<and>
   m_serverSocket (fst (stop sw)) < 0 \<and>
   (if 0 \<le> m_serverSocket (fst sw)
    then m_serverSocket (fst (stop sw)) = - 1 \<and>
         m_serverSocket (fst sw) \<notin> open_fds (snd (stop sw)) \<and>
         events_since (snd sw) (snd (stop sw)) =
           [Close (m_serverSocket (fst sw)), Stdout ServerStopped]
    else m_serverSocket (fst (stop sw)) = m_serverSocket (fst sw) \<and>
         snd (stop sw) = snd sw) \<and>
   stop (stop (snd (start sw))) = stop (snd (start sw)) \<and>
   events_since (snd (stop (snd (start sw)))) (snd (stop (stop (snd (start sw))))) = []"
proof -
  have idem: "stop (stop x) = stop x" for x
    by (cases x) (simp add: stop_def Let_def)
  have "events_since (snd x) (snd x) = []" for x
    by (simp add: events_since_def)
  then show ?thesis
    by (cases sw)
       (simp add: idem, simp add: stop_def Let_def close_call_def print_def emit_def
          events_since_def)
qed

text \<open>The theorem at the listener started on port 8080.\<close>

theorem stop_idempotent_witness:
  "0 \<le> m_serverSocket (fst started) \<and>
   stop (stop started) = stop started \<and>
   m_serverSocket (fst (stop started)) = - 1 \<and>
   \<not> m_running (fst (stop started)) \<and>
   events_since (snd started) (snd (stop started)) = [Close 3, Stdout ServerStopped] \<and>
   events_since (snd (stop started)) (snd (stop (stop started))) = []"
proof -
  have "0 \<le> m_serverSocket (fst started)" "m_serverSocket (fst started) = 3"
    by (simp_all add: started_eq)
  with stop_idempotent [of started] show ?thesis
    by (simp add: events_since_def)
qed

section \<open>Running\<close>

text \<open>
  Claim C7. In the accept loop, an \<open>accept\<close> failure while the listener is still
  running is reported with \<open>perror\<close> and the loop goes on to the next \<open>accept\<close>; this
  holds for any number of failures in a row, each of which is reported. An \<open>accept\<close>
  failure that finds \<open>m_running\<close> false, because \<open>stop()\<close> was called while \<open>accept\<close>
  was blocked, is not reported and \<open>run()\<close> returns: the calls of that round are the
  \<open>accept\<close> and what \<open>stop()\<close> itself does.
\<close>

theorem accept_failure:
  assumes "m_running s"
  shows "(accept_ret e < 0 \<and> \<not> stop_called e \<longrightarrow>
            run_loop (e # es) (s, w) =
              run_loop es (s, perror ''accept failed'' (emit (Accept (m_serverSocket s)) w))) \<and>
         (accept_ret e < 0 \<and> stop_called e \<longrightarrow>
            run_loop (e # es) (s, w) = Returns (stop (s, emit (Accept (m_serverSocket s)) w)) \<and>
            events_since w (snd (stop (s, emit (Accept (m_serverSocket s)) w))) =
              Accept (m_serverSocket s) #
              (if 0 \<le> m_serverSocket s
               then [Close (m_serverSocket s), Stdout ServerStopped] else [])) \<and>
         (keeps_failing fs \<longrightarrow>
            run_loop (fs @ es) (s, w) =
              run_loop es (s, w\<lparr>trace := trace w @ failure_reports (m_serverSocket s) fs\<rparr>))"
proof (intro conjI impI)
  assume "accept_ret e < 0 \<and> \<not> stop_called e"
  then show "run_loop (e # es) (s, w) =
      run_loop es (s, perror ''accept failed'' (emit (Accept (m_serverSocket s)) w))"
    using assms by (simp add: accepted_failed)
next
  assume e: "accept_ret e < 0 \<and> stop_called e"
  have stopped: "\<not> m_running (fst (stop x))" for x
    by (cases x) (simp add: stop_def Let_def)
  have "run_loop es (stop (s, emit (Accept (m_serverSocket s)) w)) =
        Returns (stop (s, emit (Accept (m_serverSocket s)) w))"
    using stopped by (cases es) simp_all
  then show "run_loop (e # es) (s, w) = Returns (stop (s, emit (Accept (m_serverSocket s)) w))"
    using assms e stopped by (simp add: accepted_failed)
next
  show "events_since w (snd (stop (s, emit (Accept (m_serverSocket s)) w))) =
      Accept (m_serverSocket s) #
      (if 0 \<le> m_serverSocket s then [Close (m_serverSocket s), Stdout ServerStopped] else [])"
    by (simp add: events_since_def stop_def Let_def close_call_def print_def emit_def)
next
  assume "keeps_failing fs"
  with assms show "run_loop (fs @ es) (s, w) =
      run_loop es (s, w\<lparr>trace := trace w @ failure_reports (m_serverSocket s) fs\<rparr>)"
    by (rule run_loop_keeps_failing)
qed

text \<open>
  The theorem at the listener started on port 8080: two failed accepts, then one that
  fails because the listener was stopped, with a client still waiting.
\<close>

theorem accept_failure_witness:
  "m_running (fst started) \<and> keeps_failing [accept_fails, accept_fails] \<and>
   accept_ret accept_stopped < 0 \<and> stop_called accept_stopped \<and>
   events_since (snd started)
     (snd (final (run_loop ([accept_fails, accept_fails] @ [accept_stopped, accept_client])
        started))) =
     [Accept 3, Perror ''accept failed'', Accept 3, Perror ''accept failed'',
      Accept 3, Close 3, Stdout ServerStopped]"
proof -
  have running: "m_running (fst started)" and fd: "m_serverSocket (fst started) = 3"
    by (simp_all add: started_eq)
  have fails: "keeps_failing [accept_fails, accept_fails]"
    by (simp add: keeps_failing_def accept_fails_def)
  have stopped: "accept_ret accept_stopped < 0 \<and> stop_called accept_stopped"
    by (simp add: accept_stopped_def)
  let ?w = "(snd started)\<lparr>trace := trace (snd started) @
      failure_reports (m_serverSocket (fst started)) [accept_fails, accept_fails]\<rparr>"
  have "run_loop ([accept_fails, accept_fails] @ [accept_stopped, accept_client]) started =
        run_loop [accept_stopped, accept_client] (fst started, ?w)"
    using accept_failure [OF running,
        of accept_fails "[accept_stopped, accept_client]" "snd started"
           "[accept_fails, accept_fails]"] fails
    by simp
  also have "\<dots> = Returns (stop (fst started, emit (Accept 3) ?w))"
    using accept_failure [OF running, of accept_stopped "[accept_client]" ?w "[]"] stopped
    by (simp add: fd)
  finally show ?thesis
    using running fails stopped
    by (simp add: stop_started fd failure_reports_def events_since_def print_def
        close_call_def emit_def)
qed

text \<open>
  Claim C8. \<open>run()\<close> after \<open>stop()\<close> returns at once, whatever connections are
  waiting: the loop body is never entered, no \<open>accept\<close> is made and nothing is
  reported; the only output is the line \<open>run()\<close> prints before its loop.
\<close>

theorem run_after_stop:
  "run es (stop sw) =
     Returns (fst (stop sw), print (RunningOn (m_actualPort (fst sw))) (snd (stop sw))) \<and>
   events_since (snd (stop sw)) (snd (final (run es (stop sw)))) =
     [Stdout (RunningOn (m_actualPort (fst sw)))]"
proof -
  obtain s w where sw: "stop sw = (s, w)"
    by (cases "stop sw")
  have s: "\<not> m_running s" "m_actualPort s = m_actualPort (fst sw)"
    using sw by (cases sw; simp add: stop_def Let_def split: if_splits; fastforce)+
  have "run_loop es (s, w') = Returns (s, w')" for w'
    using s(1) by (cases es) simp_all
  then show ?thesis
    by (simp add: sw run_def s events_since_def print_def emit_def)
qed

section \<open>Handling a connection\<close>

text \<open>
  Claim C3. For every connection that \<open>accept\<close> returns while the loop runs, the loop
  calls \<open>handleClient\<close> on it, and the handler makes one \<open>send\<close> on the accepted
  socket with exactly the bytes
  of the status line \<open>HTTP/1.1 200 OK\<close>, the headers \<open>Content-Type: text/plain\<close> and
  \<open>Content-Length: 13\<close>, each ended by CR LF, an empty line (CR LF) and the body
  \<open>Hello, World!\<close>, and then closes the socket. It never reads from the connection, so the calls are
  the same whatever bytes the peers have sent.
\<close>

theorem accepted_connection_response:
  assumes "m_running s" and "0 \<le> accept_ret e"
  shows "run_loop (e # es) (s, w) =
           run_loop es (handleClient (accept_ret e) (peer e) (accepted e (s, w))) \<and>
         events_since (snd (accepted e (s, w)))
           (snd (handleClient (accept_ret e) (peer e) (accepted e (s, w)))) =
           [Stdout (ClientConnected (sin_addr (peer e)) (ntohs (sin_port (peer e)))),
            Send (accept_ret e)
              (''HTTP/1.1 200 OK'' @ [CHR 0x0D, CHR 0x0A] @
               ''Content-Type: text/plain'' @ [CHR 0x0D, CHR 0x0A] @
               ''Content-Length: 13'' @ [CHR 0x0D, CHR 0x0A] @
               [CHR 0x0D, CHR 0x0A] @
               ''Hello, World!''),
            Close (accept_ret e),
            Stdout ClientDisconnected] \<and>
         accept_ret e \<notin> open_fds (snd (handleClient (accept_ret e) (peer e) (accepted e (s, w)))) \<and>
         events_since (snd (accepted e (s, w\<lparr>inbound := data\<rparr>)))
           (snd (handleClient (accept_ret e) (peer e) (accepted e (s, w\<lparr>inbound := data\<rparr>)))) =
         events_since (snd (accepted e (s, w)))
           (snd (handleClient (accept_ret e) (peer e) (accepted e (s, w))))"
proof -
  have ev: "events_since (snd x) (snd (handleClient fd addr x)) =
      [Stdout (ClientConnected (sin_addr addr) (ntohs (sin_port addr))),
       Send fd (take (strlen response) response), Close fd, Stdout ClientDisconnected]"
    for x fd addr
    by (cases x) (simp add: events_since_def handleClient_events(1))
  have closed: "fd \<notin> open_fds (snd (handleClient fd addr x))" for x fd addr
    by (cases x) (simp add: handleClient_events(2))
  have step: "run_loop (e # es) (s, w) =
      run_loop es (handleClient (accept_ret e) (peer e) (accepted e (s, w)))"
    using assms by (simp add: Let_def)
  show ?thesis
    unfolding ev response_bytes using step closed by simp
qed

text \<open>The theorem at the listener started on port 8080 and a client from 127.0.0.1.\<close>

theorem accepted_connection_response_witness:
  "m_running (fst started) \<and> 0 \<le> accept_ret accept_client \<and>
   events_since (snd started) (snd (final (run_loop [accept_client] started))) =
     [Accept 3,
      Stdout (ClientConnected 0x7F000001 54321),
      Send 4
        (''HTTP/1.1 200 OK'' @ [CHR 0x0D, CHR 0x0A] @
         ''Content-Type: text/plain'' @ [CHR 0x0D, CHR 0x0A] @
         ''Content-Length: 13'' @ [CHR 0x0D, CHR 0x0A] @
         [CHR 0x0D, CHR 0x0A] @
         ''Hello, World!''),
      Close 4,
      Stdout ClientDisconnected]"
proof -
  have running: "m_running (fst started)" and fd: "m_serverSocket (fst started) = 3"
    by (simp_all add: started_eq)
  have client: "0 \<le> accept_ret accept_client" "\<not> stop_called accept_client"
    "peer accept_client = \<lparr>sin_family = 2, sin_addr = 0x7F000001, sin_port = 54321\<rparr>"
    "accept_ret accept_client = 4"
    by (simp_all add: accept_client_def)
  have acc: "accepted accept_client started =
      (fst started, accept_call 3 accept_client (snd started))"
    by (simp add: accepted_def client fd)
  have tr: "trace (accept_call 3 accept_client (snd started)) = trace (snd started) @ [Accept 3]"
    by (simp add: accept_call_def emit_def)
  have fin: "final (run_loop [] x) = x" for x
    by simp
  note inst = accepted_connection_response [OF running client(1), of "[]" "snd started" no_data]
  then have "run_loop [accept_client] started =
      run_loop [] (handleClient 4 (peer accept_client)
        (fst started, accept_call 3 accept_client (snd started)))"
    by (simp add: acc client(4) del: run_loop.simps)
  then have "final (run_loop [accept_client] started) =
      handleClient 4 (peer accept_client)
        (fst started, accept_call 3 accept_client (snd started))"
    by (simp only: fin)
  then show ?thesis
    using running client(1)
    by (simp add: events_since_def tr handleClient_events(1) response_bytes client(3) ntohs_def)
qed

section \<open>The requested port and the backlog\<close>

text \<open>
  Claim C10. \<open>start\<close>, \<open>run\<close> (with any \<open>stop\<close> called meanwhile), \<open>stop\<close> and
  \<open>handleClient\<close> leave \<open>m_port\<close> and \<open>m_backlog\<close> as the constructor set them; what
  they assign is among \<open>m_actualPort\<close>, \<open>m_running\<close>, \<open>m_serverSocket\<close> and
  \<open>m_serverAddress\<close>, the other four data members.
\<close>

theorem port_and_backlog_unchanged:
  "m_port (fst (snd (start sw))) = m_port (fst sw) \<and>
   m_backlog (fst (snd (start sw))) = m_backlog (fst sw) \<and>
   m_port (fst (final (run es sw))) = m_port (fst sw) \<and>
   m_backlog (fst (final (run es sw))) = m_backlog (fst sw) \<and>
   m_port (fst (stop sw)) = m_port (fst sw) \<and>
   m_backlog (fst (stop sw)) = m_backlog (fst sw) \<and>
   m_port (fst (handleClient fd addr sw)) = m_port (fst sw) \<and>
   m_backlog (fst (handleClient fd addr sw)) = m_backlog (fst sw)"
proof -
  have "m_port (fst (final (run es sw))) = m_port (fst sw) \<and>
        m_backlog (fst (final (run es sw))) = m_backlog (fst sw)"
    by (cases sw) (simp add: run_def run_loop_frame)
  then show ?thesis
    by (simp add: start_frame stop_frame handleClient_frame)
qed

end
